theory Spec2Isabelle
  imports Complex_Main
begin

section \<open>LTI aircraft model and reward functions of thesis\_pilot\<close>

text \<open>
  A shallow embedding of \<^verbatim>\<open>src/models/aircraft_model.py\<close> and
  \<^verbatim>\<open>src/models/rewards.py\<close>. The scalars of the aircraft data are Python floats,
  idealised as real numbers; the one place where Python arithmetic on them does not return
  a number, division by zero, is kept as the exception it raises there.
\<close>

subsection \<open>Exceptions\<close>

text \<open>
  The exceptions the embedded code can raise: \<^verbatim>\<open>ZeroDivisionError\<close> from the operator
  \<^verbatim>\<open>/\<close> on scalars, \<^verbatim>\<open>AttributeError\<close> from reading a field of \<^verbatim>\<open>None\<close>,
  \<^verbatim>\<open>IndexError\<close> from indexing past the end of a list or of a shape tuple,
  \<^verbatim>\<open>ValueError\<close> with its message from \<^verbatim>\<open>get_reward\<close>, and whatever the
  external package \<^verbatim>\<open>control\<close> raises inside the calls made to it
  (\<open>ExternalError\<close> with a message). The source defines no exception class of its own.
\<close>

datatype error =
  ZeroDivisionError | AttributeError | IndexError | ValueError string | ExternalError string

definition bind_err :: "error + 'a \<Rightarrow> ('a \<Rightarrow> error + 'b) \<Rightarrow> error + 'b" where
  "bind_err m f = (case m of Inl e \<Rightarrow> Inl e | Inr x \<Rightarrow> f x)"

definition py_truediv :: "real \<Rightarrow> real \<Rightarrow> error + real" where
  "py_truediv x y = (if y = 0 then Inl ZeroDivisionError else Inr (x / y))"

subsection \<open>Aircraft data\<close>

text \<open>
  Modelled from the spec: the module \<^verbatim>\<open>data/load_aircraft_data.py\<close> that declares
  \<^verbatim>\<open>AircraftData\<close> is not among the sources. The records below hold the fields section 3
  of the specification lists, which are the fields the builders read. A field
  \<^verbatim>\<open>cx.u\<close> of the source is \<open>cx_u (cx s)\<close> here; the single-letter fields \<^verbatim>\<open>data.v\<close>
  and \<^verbatim>\<open>data.asymmetric.b\<close> are \<open>data_v\<close> and \<open>asym_b\<close>.
\<close>

record Cx =
  cx_u :: real
  cx_a :: real
  cx_o :: real
  cx_de :: real

record Cz =
  cz_u :: real
  cz_a :: real
  cz_a_dot :: real
  cz_o :: real
  cz_q :: real
  cz_de :: real

record Cm =
  cm_u :: real
  cm_a :: real
  cm_a_dot :: real
  cm_o :: real
  cm_q :: real
  cm_de :: real

record Cy =
  cy_b :: real
  cy_p :: real
  cy_r :: real
  cy_dr :: real

record Cl =
  cl_b :: real
  cl_p :: real
  cl_r :: real
  cl_da :: real
  cl_dr :: real

record Cn =
  cn_b :: real
  cn_p :: real
  cn_r :: real
  cn_da :: real
  cn_dr :: real

record SymmetricData =
  c_bar :: real
  mu_c :: real
  ky_2 :: real
  cx :: Cx
  cz :: Cz
  cm :: Cm

record AsymmetricData =
  asym_b :: real
  mu_b :: real
  c_l :: real
  kx_2 :: real
  kz_2 :: real
  kxz :: real
  cy :: Cy
  cl :: Cl
  cn :: Cn

record AircraftData =
  data_v :: real
  symmetric :: "SymmetricData option"
  asymmetric :: "AsymmetricData option"

text \<open>
  \<^verbatim>\<open>data.symmetric\<close> followed by a field access: \<^verbatim>\<open>None\<close> has no such field.
\<close>

definition get_symmetric :: "AircraftData \<Rightarrow> error + SymmetricData" where
  "get_symmetric data = (case symmetric data of None \<Rightarrow> Inl AttributeError | Some s \<Rightarrow> Inr s)"

definition get_asymmetric :: "AircraftData \<Rightarrow> error + AsymmetricData" where
  "get_asymmetric data = (case asymmetric data of None \<Rightarrow> Inl AttributeError | Some s \<Rightarrow> Inr s)"

subsection \<open>The symmetric builder\<close>

text \<open>
  \<^verbatim>\<open>Symmetric.build_a\<close>, lines 68 to 109. A two-dimensional array is the list of its
  rows. The divisions are evaluated in the order of the source; Python's
  \<^verbatim>\<open>x * y / z\<close> is \<^verbatim>\<open>(x * y) / z\<close> and \<^verbatim>\<open>- x * y / z\<close> is
  \<^verbatim>\<open>((- x) * y) / z\<close>.
\<close>

definition Symmetric_build_a :: "AircraftData \<Rightarrow> error + real list list" where
  "Symmetric_build_a data =
    bind_err (get_symmetric data) (\<lambda>s.
    bind_err (py_truediv (data_v data) (c_bar s)) (\<lambda>v_c.
    let mu_c_cz_a = 2 * mu_c s - cz_a_dot (cz s) in
    bind_err (py_truediv (cm_a_dot (cm s)) (2 * mu_c s - cz_a_dot (cz s))) (\<lambda>cm_a_mu_c.
    let mu_c_ky_2 = 2 * mu_c s * ky_2 s in
    bind_err (py_truediv (v_c * cx_u (cx s)) (2 * mu_c s)) (\<lambda>xu.
    bind_err (py_truediv (v_c * cx_a (cx s)) (2 * mu_c s)) (\<lambda>xa.
    bind_err (py_truediv (v_c * cz_o (cz s)) (2 * mu_c s)) (\<lambda>xt.
    bind_err (py_truediv (v_c * cz_u (cz s)) mu_c_cz_a) (\<lambda>zu.
    bind_err (py_truediv (v_c * cz_a (cz s)) mu_c_cz_a) (\<lambda>za.
    bind_err (py_truediv (v_c * cx_o (cx s)) mu_c_cz_a) (\<lambda>zt.
    bind_err (py_truediv (v_c * (2 * mu_c s + cz_q (cz s))) mu_c_cz_a) (\<lambda>zq.
    bind_err (py_truediv (v_c * (cm_u (cm s) + cz_u (cz s) * cm_a_mu_c)) mu_c_ky_2) (\<lambda>mu.
    bind_err (py_truediv (v_c * (cm_a (cm s) + cz_a (cz s) * cm_a_mu_c)) mu_c_cz_a) (\<lambda>ma.
    bind_err (py_truediv (- v_c * (cx_o (cx s) * cm_a_mu_c)) mu_c_ky_2) (\<lambda>mt.
    bind_err (py_truediv (cm_a_dot (cm s) * (2 * mu_c s + cz_q (cz s))) mu_c_cz_a) (\<lambda>mq_inner.
    bind_err (py_truediv (v_c * (cm_q (cm s) + mq_inner)) mu_c_cz_a) (\<lambda>mq.
    Inr [[xu, xa, xt, 0],
         [zu, za, zt, zq],
         [0, 0, 0, v_c],
         [mu, ma, mt, mq]])))))))))))))))"

text \<open>\<^verbatim>\<open>Symmetric.build_b\<close>, lines 111 to 140.\<close>

definition Symmetric_build_b :: "AircraftData \<Rightarrow> error + real list list" where
  "Symmetric_build_b data =
    bind_err (get_symmetric data) (\<lambda>s.
    bind_err (py_truediv (data_v data) (c_bar s)) (\<lambda>v_c.
    let mu_c_cz_a = 2 * mu_c s - cz_a_dot (cz s) in
    bind_err (py_truediv (v_c * cx_de (cx s)) (2 * mu_c s)) (\<lambda>x_de.
    bind_err (py_truediv (v_c * cz_de (cz s)) mu_c_cz_a) (\<lambda>z_de.
    bind_err (py_truediv (cz_de (cz s) * cm_a_dot (cm s)) mu_c_cz_a) (\<lambda>m_de_inner.
    bind_err (py_truediv (v_c * (cm_de (cm s) + m_de_inner)) (2 * mu_c s * ky_2 s)) (\<lambda>m_de.
    Inr [[x_de],
         [z_de],
         [0],
         [m_de]]))))))"

subsection \<open>The asymmetric builder\<close>

text \<open>
  \<^verbatim>\<open>Asymmetric.build_a\<close>, lines 159 to 200. Lines 186 and 187 are the chained
  assignments \<^verbatim>\<open>lp = v_b = (...) / mu_b_k\<close> and \<^verbatim>\<open>lr = v_b = (...) / mu_b_k\<close>: each
  binds its quotient to both names, so from line 187 on \<^verbatim>\<open>v_b\<close> holds the value of
  \<^verbatim>\<open>lr\<close>.
\<close>

definition Asymmetric_build_a :: "AircraftData \<Rightarrow> error + real list list" where
  "Asymmetric_build_a data =
    bind_err (get_asymmetric data) (\<lambda>s.
    bind_err (py_truediv (data_v data) (asym_b s)) (\<lambda>v_b.
    let mu_b_k = 4 * mu_b s * (kx_2 s * kz_2 s - kxz s ^ 2) in
    bind_err (py_truediv (v_b * cy_b (cy s)) (2 * mu_b s)) (\<lambda>yb.
    bind_err (py_truediv (v_b * c_l s) (2 * mu_b s)) (\<lambda>yphi.
    bind_err (py_truediv (v_b * cy_p (cy s)) (2 * mu_b s)) (\<lambda>yp.
    bind_err (py_truediv (v_b * (cy_r (cy s) - 4 * mu_b s)) (2 * mu_b s)) (\<lambda>yr.
    bind_err (py_truediv (v_b * (cl_b (cl s) * kz_2 s + cn_b (cn s) * kxz s)) mu_b_k) (\<lambda>lb.
    bind_err (py_truediv (cl_p (cl s) * kz_2 s + cn_p (cn s) * kxz s) mu_b_k) (\<lambda>lp.
    let v_b = lp in
    bind_err (py_truediv (cl_r (cl s) * kz_2 s + cn_r (cn s) * kxz s) mu_b_k) (\<lambda>lr.
    let v_b = lr in
    bind_err (py_truediv (v_b * (cl_b (cl s) * kxz s + cn_b (cn s) * kx_2 s)) mu_b_k) (\<lambda>nb.
    bind_err (py_truediv (v_b * (cl_p (cl s) * kxz s + cn_p (cn s) * kx_2 s)) mu_b_k) (\<lambda>n_p.
    bind_err (py_truediv (v_b * (cl_r (cl s) * kxz s + cn_r (cn s) * kx_2 s)) mu_b_k) (\<lambda>nr.
    Inr [[yb, yphi, yp, yr],
         [0, 0, 2 * v_b, 0],
         [lb, 0, lp, lr],
         [nb, 0, n_p, nr]]))))))))))))"

text \<open>\<^verbatim>\<open>Asymmetric.build_b\<close>, lines 202 to 236; here \<^verbatim>\<open>v_b = v / mu_b\<close> (line 218).\<close>

definition Asymmetric_build_b :: "AircraftData \<Rightarrow> error + real list list" where
  "Asymmetric_build_b data =
    bind_err (get_asymmetric data) (\<lambda>s.
    bind_err (py_truediv (data_v data) (mu_b s)) (\<lambda>v_b.
    let mu_b_k = 4 * mu_b s * (kx_2 s * kz_2 s - kxz s ^ 2) in
    bind_err (py_truediv (v_b * cy_dr (cy s)) (2 * mu_b s)) (\<lambda>y_dr.
    bind_err (py_truediv (v_b * (cl_da (cl s) * kz_2 s + cn_da (cn s) * kxz s)) mu_b_k) (\<lambda>l_da.
    bind_err (py_truediv (v_b * (cl_dr (cl s) * kz_2 s + cn_dr (cn s) * kxz s)) mu_b_k) (\<lambda>l_dr.
    bind_err (py_truediv (v_b * (cl_da (cl s) * kxz s + cn_da (cn s) * kx_2 s)) mu_b_k) (\<lambda>n_da.
    bind_err (py_truediv (v_b * (cl_dr (cl s) * kxz s + cn_dr (cn s) * kx_2 s)) mu_b_k) (\<lambda>n_dr.
    Inr [[0, y_dr],
         [0, 0],
         [l_da, l_dr],
         [n_da, n_dr]])))))))"

subsection \<open>State-space models\<close>

text \<open>
  \<^verbatim>\<open>StateSpace\<close> derives from \<^verbatim>\<open>control.StateSpace\<close> of the external package
  python-control, which is not part of the repository. The four calls the constructor makes
  into it are parameters: each either returns or raises.
\<close>

record control_lib =
  ct_StateSpace_init ::
    "real list list \<Rightarrow> real list list \<Rightarrow> real list list \<Rightarrow> real list list \<Rightarrow> error + unit"
  ct_set_inputs :: "string list \<Rightarrow> error + unit"
  ct_set_outputs :: "string list \<Rightarrow> error + unit"
  ct_set_states :: "string list \<Rightarrow> error + unit"

text \<open>
  The fields \<^verbatim>\<open>a\<close>, \<^verbatim>\<open>b\<close>, \<^verbatim>\<open>x_names\<close>, \<^verbatim>\<open>u_names\<close> the constructor assigns, and the
  matrices \<^verbatim>\<open>c\<close> and \<^verbatim>\<open>d\<close> it hands to the base class; the four matrices are the
  fields \<open>ss_a\<close>, \<open>ss_b\<close>, \<open>ss_c\<close>, \<open>ss_d\<close>.
\<close>

record StateSpace =
  ss_a :: "real list list"
  ss_b :: "real list list"
  ss_c :: "real list list"
  ss_d :: "real list list"
  x_names :: "string list"
  u_names :: "string list"

text \<open>
  \<^verbatim>\<open>np.eye(n)\<close> and \<^verbatim>\<open>np.zeros((n, m))\<close>. Of an array given by its rows,
  \<^verbatim>\<open>shape[0]\<close> is the number of rows; \<^verbatim>\<open>shape[1]\<close> is the length of a row, and
  the array without rows, \<^verbatim>\<open>np.array([])\<close>, has the shape \<^verbatim>\<open>(0,)\<close> with no second
  entry.
\<close>

definition np_eye :: "nat \<Rightarrow> real list list" where
  "np_eye n = map (\<lambda>i. map (\<lambda>j. if i = j then 1 else 0) [0..<n]) [0..<n]"

definition np_zeros :: "nat \<Rightarrow> nat \<Rightarrow> real list list" where
  "np_zeros n m = replicate n (replicate m 0)"

definition shape_0 :: "real list list \<Rightarrow> nat" where
  "shape_0 x = length x"

definition shape_1 :: "real list list \<Rightarrow> error + nat" where
  "shape_1 x = (case x of [] \<Rightarrow> Inl IndexError | row # _ \<Rightarrow> Inr (length row))"

text \<open>\<^verbatim>\<open>StateSpace.__init__\<close>, lines 37 to 49.\<close>

definition StateSpace_init ::
  "control_lib \<Rightarrow> real list list \<Rightarrow> real list list \<Rightarrow> string list \<Rightarrow> string list
    \<Rightarrow> error + StateSpace" where
  "StateSpace_init lib a b xs us =
    (let c = np_eye (shape_0 a) in
    bind_err (shape_1 b) (\<lambda>m.
    let d = np_zeros (shape_0 a) m in
    bind_err (ct_StateSpace_init lib a b c d) (\<lambda>_.
    bind_err (ct_set_inputs lib us) (\<lambda>_.
    bind_err (ct_set_outputs lib xs) (\<lambda>_.
    bind_err (ct_set_states lib xs) (\<lambda>_.
    Inr \<lparr>ss_a = a, ss_b = b, ss_c = c, ss_d = d, x_names = xs, u_names = us\<rparr>))))))"

text \<open>\<^verbatim>\<open>Symmetric.__init__\<close>, lines 55 to 66, and \<^verbatim>\<open>Asymmetric.__init__\<close>, lines 146 to 157.\<close>

definition Symmetric_init :: "control_lib \<Rightarrow> AircraftData \<Rightarrow> error + StateSpace" where
  "Symmetric_init lib data =
    bind_err (Symmetric_build_a data) (\<lambda>a.
    bind_err (Symmetric_build_b data) (\<lambda>b.
    StateSpace_init lib a b [''u_hat'', ''alpha'', ''theta'', ''q_cv''] [''de'']))"

definition Asymmetric_init :: "control_lib \<Rightarrow> AircraftData \<Rightarrow> error + StateSpace" where
  "Asymmetric_init lib data =
    bind_err (Asymmetric_build_a data) (\<lambda>a.
    bind_err (Asymmetric_build_b data) (\<lambda>b.
    StateSpace_init lib a b [''beta'', ''phi'', ''pb_2v'', ''rb_2v''] [''da'', ''dr'']))"

subsection \<open>The aircraft\<close>

text \<open>
  \<^verbatim>\<open>Aircraft.__init__\<close>, lines 12 to 22. The loader \<^verbatim>\<open>load_aircraft\<close> of the missing
  module \<^verbatim>\<open>data/load_aircraft_data.py\<close> is a parameter. A block is tested for
  truth, which for an optional record is: it is not \<^verbatim>\<open>None\<close>.
\<close>

record Aircraft =
  ac_filename :: string
  ac_data :: AircraftData
  sym :: "StateSpace option"
  asym :: "StateSpace option"

definition Aircraft_init ::
  "control_lib \<Rightarrow> (string \<Rightarrow> error + AircraftData) \<Rightarrow> string \<Rightarrow> error + Aircraft" where
  "Aircraft_init lib load_aircraft fname =
    bind_err (load_aircraft fname) (\<lambda>data.
    bind_err (case symmetric data of None \<Rightarrow> Inr None
              | Some _ \<Rightarrow> bind_err (Symmetric_init lib data) (\<lambda>m. Inr (Some m))) (\<lambda>sym_model.
    bind_err (case asymmetric data of None \<Rightarrow> Inr None
              | Some _ \<Rightarrow> bind_err (Asymmetric_init lib data) (\<lambda>m. Inr (Some m))) (\<lambda>asym_model.
    Inr \<lparr>ac_filename = fname, ac_data = data, sym = sym_model, asym = asym_model\<rparr>)))"

subsection \<open>Rewards\<close>

text \<open>
  Modelled from the spec: the environment class of \<^verbatim>\<open>models/aircraft_environment.py\<close>,
  whose instance the reward functions receive as \<^verbatim>\<open>self\<close>, is not among the sources.
  The record holds the three attributes the reward functions read: the reward scale, the
  history of squared tracking errors and the history of action vectors (the trajectory
  window of the specification). Action vectors of one history have one length.
\<close>

record AircraftEnv =
  reward_scale :: real
  sq_error :: "real list"
  actions :: "real list list"

text \<open>\<^verbatim>\<open>xs[-1]\<close>, \<^verbatim>\<open>xs[-2:]\<close>, \<^verbatim>\<open>np.diff(x, axis=0)\<close> and \<^verbatim>\<open>np.sum(x ** 2)\<close>.\<close>

definition py_last :: "'a list \<Rightarrow> error + 'a" where
  "py_last xs = (case xs of [] \<Rightarrow> Inl IndexError | _ # _ \<Rightarrow> Inr (last xs))"

definition py_last_two :: "'a list \<Rightarrow> 'a list" where
  "py_last_two xs = drop (length xs - 2) xs"

fun np_diff_axis0 :: "real list list \<Rightarrow> real list list" where
  "np_diff_axis0 (r1 # r2 # rs) = map2 (\<lambda>x y. y - x) r1 r2 # np_diff_axis0 (r2 # rs)"
| "np_diff_axis0 rs = []"

definition np_sum_sq :: "real list list \<Rightarrow> real" where
  "np_sum_sq x = sum_list (map (\<lambda>e. e ^ 2) (concat x))"

text \<open>\<^verbatim>\<open>Rewards.sq_error\<close> and \<^verbatim>\<open>Rewards.sq_error_da\<close>, lines 18 to 26.\<close>

definition Rewards_sq_error :: "AircraftEnv \<Rightarrow> error + real" where
  "Rewards_sq_error self =
    bind_err (py_last (sq_error self)) (\<lambda>e. Inr (- reward_scale self * e))"

definition Rewards_sq_error_da :: "AircraftEnv \<Rightarrow> error + real" where
  "Rewards_sq_error_da self =
    bind_err (py_last (sq_error self)) (\<lambda>e.
    Inr (- (e + np_sum_sq (np_diff_axis0 (py_last_two (actions self))))))"

text \<open>\<^verbatim>\<open>get_reward\<close>, lines 6 to 13.\<close>

definition get_reward :: "string \<Rightarrow> error + (AircraftEnv \<Rightarrow> error + real)" where
  "get_reward reward_type =
    (if reward_type = ''sq_error'' then Inr Rewards_sq_error
     else if reward_type = ''sq_error_da'' then Inr Rewards_sq_error_da
     else Inl (ValueError (''Reward type '' @ reward_type @ '' not found'')))"

subsection \<open>The tables of the specification\<close>

text \<open>
  The matrices as the specification writes them, for comparison with the builders. Section
  4.2: the symmetric A matrix.
\<close>

definition spec_symmetric_A :: "real \<Rightarrow> SymmetricData \<Rightarrow> real list list" where
  "spec_symmetric_A v s =
    (let v_c = v / c_bar s;
         mu_c_cz_a = 2 * mu_c s - cz_a_dot (cz s);
         cm_a_mu_c = cm_a_dot (cm s) / mu_c_cz_a;
         mu_c_ky_2 = 2 * mu_c s * ky_2 s
     in [[v_c * cx_u (cx s) / (2 * mu_c s), v_c * cx_a (cx s) / (2 * mu_c s),
          v_c * cz_o (cz s) / (2 * mu_c s), 0],
         [v_c * cz_u (cz s) / mu_c_cz_a, v_c * cz_a (cz s) / mu_c_cz_a,
          v_c * cx_o (cx s) / mu_c_cz_a, v_c * (2 * mu_c s + cz_q (cz s)) / mu_c_cz_a],
         [0, 0, 0, v_c],
         [v_c * (cm_u (cm s) + cz_u (cz s) * cm_a_mu_c) / mu_c_ky_2,
          v_c * (cm_a (cm s) + cz_a (cz s) * cm_a_mu_c) / mu_c_cz_a,
          - v_c * cx_o (cx s) * cm_a_mu_c / mu_c_ky_2,
          v_c * (cm_q (cm s) + cm_a_dot (cm s) * (2 * mu_c s + cz_q (cz s)) / mu_c_cz_a)
            / mu_c_cz_a]])"

text \<open>
  Section 4.3: the asymmetric A matrix with \<open>v_b = v / b\<close> throughout, the last row
  being the third one with \<open>kx_2\<close> in the place of \<open>kz_2\<close> in the first term of each
  numerator.
\<close>

definition spec_asymmetric_A :: "real \<Rightarrow> AsymmetricData \<Rightarrow> real list list" where
  "spec_asymmetric_A v s =
    (let v_b = v / asym_b s;
         mu_b_k = 4 * mu_b s * (kx_2 s * kz_2 s - kxz s ^ 2)
     in [[v_b * cy_b (cy s) / (2 * mu_b s), v_b * c_l s / (2 * mu_b s),
          v_b * cy_p (cy s) / (2 * mu_b s), v_b * (cy_r (cy s) - 4 * mu_b s) / (2 * mu_b s)],
         [0, 0, 2 * v_b, 0],
         [v_b * (cl_b (cl s) * kz_2 s + cn_b (cn s) * kxz s) / mu_b_k, 0,
          v_b * (cl_p (cl s) * kz_2 s + cn_p (cn s) * kxz s) / mu_b_k,
          v_b * (cl_r (cl s) * kz_2 s + cn_r (cn s) * kxz s) / mu_b_k],
         [v_b * (cl_b (cl s) * kx_2 s + cn_b (cn s) * kxz s) / mu_b_k, 0,
          v_b * (cl_p (cl s) * kx_2 s + cn_p (cn s) * kxz s) / mu_b_k,
          v_b * (cl_r (cl s) * kx_2 s + cn_r (cn s) * kxz s) / mu_b_k]])"

text \<open>
  Section 4.3: the asymmetric B matrix with the ratio \<open>v / mu_b\<close>, its last row again
  the third one with \<open>kx_2\<close> in the place of \<open>kz_2\<close>.
\<close>

definition spec_asymmetric_B :: "real \<Rightarrow> AsymmetricData \<Rightarrow> real list list" where
  "spec_asymmetric_B v s =
    (let v_b = v / mu_b s;
         mu_b_k = 4 * mu_b s * (kx_2 s * kz_2 s - kxz s ^ 2)
     in [[0, v_b * cy_dr (cy s) / (2 * mu_b s)],
         [0, 0],
         [v_b * (cl_da (cl s) * kz_2 s + cn_da (cn s) * kxz s) / mu_b_k,
          v_b * (cl_dr (cl s) * kz_2 s + cn_dr (cn s) * kxz s) / mu_b_k],
         [v_b * (cl_da (cl s) * kx_2 s + cn_da (cn s) * kxz s) / mu_b_k,
          v_b * (cl_dr (cl s) * kx_2 s + cn_dr (cn s) * kxz s) / mu_b_k]])"

subsection \<open>Concrete inputs\<close>

text \<open>An instance of the external package whose four calls all return.\<close>

definition lib_accept :: control_lib where
  "lib_accept =
    \<lparr>ct_StateSpace_init = (\<lambda>a b c d. Inr ()),
     ct_set_inputs = (\<lambda>names. Inr ()),
     ct_set_outputs = (\<lambda>names. Inr ()),
     ct_set_states = (\<lambda>names. Inr ())\<rparr>"

definition sym_block_ex :: SymmetricData where
  "sym_block_ex =
    \<lparr>c_bar = 2, mu_c = 1, ky_2 = 1,
     cx = \<lparr>cx_u = 1, cx_a = 1, cx_o = 1, cx_de = 1\<rparr>,
     cz = \<lparr>cz_u = 1, cz_a = 1, cz_a_dot = 0, cz_o = 1, cz_q = 0, cz_de = 1\<rparr>,
     cm = \<lparr>cm_u = 1, cm_a = 1, cm_a_dot = 2, cm_o = 0, cm_q = 1, cm_de = 1\<rparr>\<rparr>"

definition asym_block_ex :: AsymmetricData where
  "asym_block_ex =
    \<lparr>asym_b = 2, mu_b = 1, c_l = 2, kx_2 = 1, kz_2 = 2, kxz = 0,
     cy = \<lparr>cy_b = 2, cy_p = 2, cy_r = 6, cy_dr = 2\<rparr>,
     cl = \<lparr>cl_b = 4, cl_p = 4, cl_r = 4, cl_da = 4, cl_dr = 4\<rparr>,
     cn = \<lparr>cn_b = 8, cn_p = 8, cn_r = 8, cn_da = 8, cn_dr = 8\<rparr>\<rparr>"

definition data_ex :: AircraftData where
  "data_ex = \<lparr>data_v = 6, symmetric = Some sym_block_ex, asymmetric = Some asym_block_ex\<rparr>"

text \<open>The same data with a reference chord of zero.\<close>

definition data_c_bar_zero :: AircraftData where
  "data_c_bar_zero =
    \<lparr>data_v = 6, symmetric = Some (sym_block_ex\<lparr>c_bar := 0\<rparr>), asymmetric = None\<rparr>"

text \<open>
  Data whose critical denominators vanish: \<open>cz.a_dot = 2 * mu_c\<close> in the symmetric block,
  \<open>kx_2 * kz_2 = kxz ^ 2\<close> in the asymmetric one.
\<close>

definition data_singular :: AircraftData where
  "data_singular =
    \<lparr>data_v = 6,
     symmetric = Some (sym_block_ex\<lparr>cz := (cz sym_block_ex)\<lparr>cz_a_dot := 2\<rparr>\<rparr>),
     asymmetric = Some (asym_block_ex\<lparr>kx_2 := 0\<rparr>)\<rparr>"

text \<open>Data with neither block.\<close>

definition data_none :: AircraftData where
  "data_none = \<lparr>data_v = 6, symmetric = None, asymmetric = None\<rparr>"

text \<open>Three windows: a reward scale of 2, a reward scale of 0, and a window at rest.\<close>

definition env_scale_two :: AircraftEnv where
  "env_scale_two = \<lparr>reward_scale = 2, sq_error = [4, 1], actions = [[0, 0], [1, 3]]\<rparr>"

definition env_scale_zero :: AircraftEnv where
  "env_scale_zero = \<lparr>reward_scale = 0, sq_error = [1], actions = []\<rparr>"

definition env_at_rest :: AircraftEnv where
  "env_at_rest = \<lparr>reward_scale = 1, sq_error = [4, 0], actions = [[0, 0], [1, 3], [1, 3]]\<rparr>"

text \<open>The models the constructors return for \<open>data_ex\<close> when the external calls return.\<close>

definition sym_model_ex :: StateSpace where
  "sym_model_ex =
    \<lparr>ss_a = [[3 / 2, 3 / 2, 3 / 2, 0], [3 / 2, 3 / 2, 3 / 2, 3], [0, 0, 0, 3],
             [3, 3, - 3 / 2, 9 / 2]],
     ss_b = [[3 / 2], [3 / 2], [0], [3]],
     ss_c = [[1, 0, 0, 0], [0, 1, 0, 0], [0, 0, 1, 0], [0, 0, 0, 1]],
     ss_d = [[0], [0], [0], [0]],
     x_names = [''u_hat'', ''alpha'', ''theta'', ''q_cv''], u_names = [''de'']\<rparr>"

definition asym_model_ex :: StateSpace where
  "asym_model_ex =
    \<lparr>ss_a = [[3, 3, 3, 3], [0, 0, 2, 0], [3, 0, 1, 1], [1, 0, 1, 1]],
     ss_b = [[0, 6], [0, 0], [6, 6], [6, 6]],
     ss_c = [[1, 0, 0, 0], [0, 1, 0, 0], [0, 0, 1, 0], [0, 0, 0, 1]],
     ss_d = [[0, 0], [0, 0], [0, 0], [0, 0]],
     x_names = [''beta'', ''phi'', ''pb_2v'', ''rb_2v''], u_names = [''da'', ''dr'']\<rparr>"

section \<open>Properties\<close>

subsection \<open>Auxiliary facts\<close>

lemmas run_defs =
  get_symmetric_def get_asymmetric_def bind_err_def py_truediv_def Let_def

lemmas example_defs =
  lib_accept_def sym_block_ex_def asym_block_ex_def data_ex_def data_c_bar_zero_def
  data_singular_def data_none_def

lemma bind_err_Inr_iff:
  "bind_err m f = Inr y \<longleftrightarrow> (\<exists>x. m = Inr x \<and> f x = Inr y)"
  by (cases m) (simp_all add: bind_err_def)

text \<open>What a builder or a constructor has returned, when it has returned.\<close>

lemma Symmetric_build_a_shape:
  assumes "Symmetric_build_a data = Inr a"
  shows "length a = 4 \<and> (\<forall>row \<in> set a. length row = 4)"
  using assms unfolding Symmetric_build_a_def
  by (auto simp add: bind_err_Inr_iff Let_def)

lemma Symmetric_build_b_shape:
  assumes "Symmetric_build_b data = Inr b"
  shows "length b = 4 \<and> (\<forall>row \<in> set b. length row = 1)"
  using assms unfolding Symmetric_build_b_def
  by (auto simp add: bind_err_Inr_iff Let_def)

lemma Asymmetric_build_a_shape:
  assumes "Asymmetric_build_a data = Inr a"
  shows "length a = 4 \<and> (\<forall>row \<in> set a. length row = 4)"
  using assms unfolding Asymmetric_build_a_def
  by (auto simp add: bind_err_Inr_iff Let_def)

lemma Asymmetric_build_b_shape:
  assumes "Asymmetric_build_b data = Inr b"
  shows "length b = 4 \<and> (\<forall>row \<in> set b. length row = 2)"
  using assms unfolding Asymmetric_build_b_def
  by (auto simp add: bind_err_Inr_iff Let_def)

lemma StateSpace_init_Inr:
  assumes "StateSpace_init lib a b xs us = Inr m"
  shows "ss_a m = a \<and> ss_b m = b \<and> x_names m = xs \<and> u_names m = us
    \<and> ss_c m = np_eye (length a)
    \<and> (\<exists>k. shape_1 b = Inr k \<and> ss_d m = np_zeros (length a) k)"
  using assms unfolding StateSpace_init_def
  by (auto simp add: bind_err_Inr_iff Let_def shape_0_def)

lemma Symmetric_init_Inr:
  assumes "Symmetric_init lib data = Inr m"
  shows "length (ss_a m) = 4 \<and> (\<forall>row \<in> set (ss_a m). length row = 4)
    \<and> length (ss_b m) = 4 \<and> (\<forall>row \<in> set (ss_b m). length row = 1)
    \<and> x_names m = [''u_hat'', ''alpha'', ''theta'', ''q_cv''] \<and> u_names m = [''de'']"
proof -
  from assms obtain a b where a: "Symmetric_build_a data = Inr a"
    and b: "Symmetric_build_b data = Inr b"
    and m: "StateSpace_init lib a b [''u_hat'', ''alpha'', ''theta'', ''q_cv''] [''de''] = Inr m"
    unfolding Symmetric_init_def by (auto simp add: bind_err_Inr_iff)
  from StateSpace_init_Inr [OF m] Symmetric_build_a_shape [OF a] Symmetric_build_b_shape [OF b]
  show ?thesis by simp
qed

lemma Asymmetric_init_Inr:
  assumes "Asymmetric_init lib data = Inr m"
  shows "length (ss_a m) = 4 \<and> (\<forall>row \<in> set (ss_a m). length row = 4)
    \<and> length (ss_b m) = 4 \<and> (\<forall>row \<in> set (ss_b m). length row = 2)
    \<and> x_names m = [''beta'', ''phi'', ''pb_2v'', ''rb_2v''] \<and> u_names m = [''da'', ''dr'']"
proof -
  from assms obtain a b where a: "Asymmetric_build_a data = Inr a"
    and b: "Asymmetric_build_b data = Inr b"
    and m: "StateSpace_init lib a b [''beta'', ''phi'', ''pb_2v'', ''rb_2v''] [''da'', ''dr'']
      = Inr m"
    unfolding Asymmetric_init_def by (auto simp add: bind_err_Inr_iff)
  from StateSpace_init_Inr [OF m] Asymmetric_build_a_shape [OF a] Asymmetric_build_b_shape [OF b]
  show ?thesis by simp
qed

lemma Aircraft_init_Inr:
  assumes "Aircraft_init lib load_aircraft fname = Inr ac"
  shows "load_aircraft fname = Inr (ac_data ac) \<and> ac_filename ac = fname
    \<and> (case symmetric (ac_data ac) of None \<Rightarrow> sym ac = None
        | Some s \<Rightarrow> \<exists>m. sym ac = Some m \<and> Symmetric_init lib (ac_data ac) = Inr m)
    \<and> (case asymmetric (ac_data ac) of None \<Rightarrow> asym ac = None
        | Some s \<Rightarrow> \<exists>m. asym ac = Some m \<and> Asymmetric_init lib (ac_data ac) = Inr m)"
  using assms unfolding Aircraft_init_def
  by (auto simp add: bind_err_Inr_iff split: option.splits)

text \<open>The entries of \<open>np_eye\<close> and \<open>np_zeros\<close>, and sums of squares.\<close>

lemma np_eye_nth:
  assumes "i < n" and "j < n"
  shows "np_eye n ! i ! j = (if i = j then 1 else 0)"
  using assms by (simp add: np_eye_def)

lemma np_zeros_nth:
  assumes "i < n" and "j < m"
  shows "np_zeros n m ! i ! j = 0"
  using assms by (simp add: np_zeros_def)

lemma np_sum_sq_nonneg: "0 \<le> np_sum_sq x"
  unfolding np_sum_sq_def by (rule sum_list_nonneg) auto

lemma sum_list_squares_zero_iff:
  "sum_list (map (\<lambda>e. e ^ 2) xs) = 0 \<longleftrightarrow> (\<forall>x \<in> set xs. x = (0::real))"
proof (induction xs)
  case Nil
  show ?case by simp
next
  case (Cons x xs)
  have "0 \<le> sum_list (map (\<lambda>e. e ^ 2) xs)"
    by (rule sum_list_nonneg) auto
  moreover have "0 \<le> x ^ 2" by simp
  ultimately have "x ^ 2 + sum_list (map (\<lambda>e. e ^ 2) xs) = 0
      \<longleftrightarrow> x ^ 2 = 0 \<and> sum_list (map (\<lambda>e. e ^ 2) xs) = 0"
    by (rule add_nonneg_eq_0_iff [rotated])
  with Cons.IH show ?case by simp
qed

lemma np_sum_sq_diff_two:
  assumes "length a1 = length a2"
  shows "np_sum_sq (np_diff_axis0 [a1, a2]) = 0 \<longleftrightarrow> a1 = a2"
proof -
  have "np_sum_sq (np_diff_axis0 [a1, a2])
      = sum_list (map (\<lambda>e. e ^ 2) (map2 (\<lambda>x y. y - x) a1 a2))"
    by (simp add: np_sum_sq_def del: map_map)
  also have "\<dots> = 0 \<longleftrightarrow> (\<forall>d \<in> set (map2 (\<lambda>x y. y - x) a1 a2). d = 0)"
    by (rule sum_list_squares_zero_iff)
  also have "\<dots> \<longleftrightarrow> (\<forall>(x, y) \<in> set (zip a1 a2). x = y)"
    by auto
  finally show ?thesis
    using assms by (simp add: list_eq_iff_zip_eq)
qed

text \<open>The constructors evaluated at \<open>data_ex\<close>.\<close>

lemma Symmetric_init_data_ex:
  "Symmetric_init lib_accept data_ex = Inr sym_model_ex"
  by (simp add: Symmetric_init_def Symmetric_build_a_def Symmetric_build_b_def
      StateSpace_init_def shape_0_def shape_1_def np_eye_def np_zeros_def run_defs
      example_defs sym_model_ex_def)

lemma Asymmetric_init_data_ex:
  "Asymmetric_init lib_accept data_ex = Inr asym_model_ex"
  by (simp add: Asymmetric_init_def Asymmetric_build_a_def Asymmetric_build_b_def
      StateSpace_init_def shape_0_def shape_1_def np_eye_def np_zeros_def run_defs
      example_defs asym_model_ex_def)

lemma blocks_data_ex:
  "symmetric data_ex = Some sym_block_ex" "asymmetric data_ex = Some asym_block_ex"
  by (simp_all add: data_ex_def)

lemma Aircraft_init_data_ex:
  "Aircraft_init lib_accept (\<lambda>fname. Inr data_ex) ''citation.yaml'' =
    Inr \<lparr>ac_filename = ''citation.yaml'', ac_data = data_ex,
         sym = Some sym_model_ex, asym = Some asym_model_ex\<rparr>"
  by (simp add: Aircraft_init_def Symmetric_init_data_ex Asymmetric_init_data_ex
      blocks_data_ex bind_err_def)

subsection \<open>The asymmetric A matrix\<close>

text \<open>
  Claim C1, as the code has it by design. For an asymmetric block with \<open>b\<close> and \<open>mu_b_k\<close>
  nonzero, \<^verbatim>\<open>Asymmetric.build_a\<close> returns a 4 by 4 matrix. Its first row and the
  entry \<open>lb\<close> are those of the table of section 4.3 with \<open>v_b = v / b\<close>. The second row is
  \<open>[0, 0, 2 * f, 0]\<close> and the last row is \<open>f * (cl.x * kxz + cn.x * kx_2) / mu_b_k\<close> for
  \<open>x\<close> among \<open>b\<close>, \<open>p\<close>, \<open>r\<close>, with one common factor \<open>f\<close>: \<open>kxz\<close> multiplies the
  \<open>cl\<close> derivative and \<open>kx_2\<close> the \<open>cn\<close> derivative. The values of \<open>lp\<close>, \<open>lr\<close> and
  of the factor \<open>f\<close>, which the chained assignments of lines 186 and 187 decide, are left
  open.
\<close>

theorem Asymmetric_build_a_design:
  assumes "asymmetric data = Some s"
    and "asym_b s \<noteq> 0"
    and "4 * mu_b s * (kx_2 s * kz_2 s - kxz s ^ 2) \<noteq> 0"
  shows "\<exists>f lp lr. Asymmetric_build_a data = Inr
    [[data_v data / asym_b s * cy_b (cy s) / (2 * mu_b s),
      data_v data / asym_b s * c_l s / (2 * mu_b s),
      data_v data / asym_b s * cy_p (cy s) / (2 * mu_b s),
      data_v data / asym_b s * (cy_r (cy s) - 4 * mu_b s) / (2 * mu_b s)],
     [0, 0, 2 * f, 0],
     [data_v data / asym_b s * (cl_b (cl s) * kz_2 s + cn_b (cn s) * kxz s)
        / (4 * mu_b s * (kx_2 s * kz_2 s - kxz s ^ 2)), 0, lp, lr],
     [f * (cl_b (cl s) * kxz s + cn_b (cn s) * kx_2 s)
        / (4 * mu_b s * (kx_2 s * kz_2 s - kxz s ^ 2)), 0,
      f * (cl_p (cl s) * kxz s + cn_p (cn s) * kx_2 s)
        / (4 * mu_b s * (kx_2 s * kz_2 s - kxz s ^ 2)),
      f * (cl_r (cl s) * kxz s + cn_r (cn s) * kx_2 s)
        / (4 * mu_b s * (kx_2 s * kz_2 s - kxz s ^ 2))]]"
  apply (rule exI [where x = "(cl_r (cl s) * kz_2 s + cn_r (cn s) * kxz s)
      / (4 * mu_b s * (kx_2 s * kz_2 s - kxz s ^ 2))"])
  apply (rule exI [where x = "(cl_p (cl s) * kz_2 s + cn_p (cn s) * kxz s)
      / (4 * mu_b s * (kx_2 s * kz_2 s - kxz s ^ 2))"])
  apply (rule exI [where x = "(cl_r (cl s) * kz_2 s + cn_r (cn s) * kxz s)
      / (4 * mu_b s * (kx_2 s * kz_2 s - kxz s ^ 2))"])
  apply (insert assms)
  apply (simp add: Asymmetric_build_a_def run_defs)
  done

theorem Asymmetric_build_a_design_witness:
  "asymmetric data_ex = Some asym_block_ex
    \<and> asym_b asym_block_ex \<noteq> 0
    \<and> 4 * mu_b asym_block_ex * (kx_2 asym_block_ex * kz_2 asym_block_ex - kxz asym_block_ex ^ 2)
        \<noteq> 0
    \<and> (\<exists>f lp lr. Asymmetric_build_a data_ex =
         Inr [[3, 3, 3, 3], [0, 0, 2 * f, 0], [3, 0, lp, lr], [f, 0, f, f]])"
  using Asymmetric_build_a_design [of data_ex asym_block_ex]
  by (simp add: example_defs)

theorem Asymmetric_build_a_table_counterexample:
  "asym_b asym_block_ex \<noteq> 0
    \<and> 4 * mu_b asym_block_ex * (kx_2 asym_block_ex * kz_2 asym_block_ex - kxz asym_block_ex ^ 2)
        \<noteq> 0
    \<and> Asymmetric_build_a data_ex =
        Inr [[3, 3, 3, 3], [0, 0, 2, 0], [3, 0, 1, 1], [1, 0, 1, 1]]
    \<and> spec_asymmetric_A (data_v data_ex) asym_block_ex =
        [[3, 3, 3, 3], [0, 0, 6, 0], [3, 0, 3, 3], [3 / 2, 0, 3 / 2, 3 / 2]]"
  by (simp add: Asymmetric_build_a_def spec_asymmetric_A_def run_defs example_defs)

subsection \<open>The symmetric A matrix\<close>

text \<open>
  Claim C2, amended. For a symmetric block with \<open>c_bar\<close>, \<open>mu_c_cz_a = 2 * mu_c - cz.a_dot\<close>
  and \<open>mu_c_ky_2 = 2 * mu_c * ky_2\<close> all nonzero, \<^verbatim>\<open>Symmetric.build_a\<close> returns the table
  of section 4.2 row for row, and the entry in row \<open>theta\<close>, column \<open>q\<close> is \<open>v / c_bar\<close>.
\<close>

theorem Symmetric_build_a_table:
  assumes "symmetric data = Some s"
    and "c_bar s \<noteq> 0"
    and "2 * mu_c s - cz_a_dot (cz s) \<noteq> 0"
    and "2 * mu_c s * ky_2 s \<noteq> 0"
  shows "Symmetric_build_a data = Inr (spec_symmetric_A (data_v data) s)
    \<and> spec_symmetric_A (data_v data) s ! 2 ! 3 = data_v data / c_bar s"
  using assms
  by (simp add: Symmetric_build_a_def spec_symmetric_A_def run_defs)

theorem Symmetric_build_a_table_witness:
  "symmetric data_ex = Some sym_block_ex
    \<and> c_bar sym_block_ex \<noteq> 0
    \<and> 2 * mu_c sym_block_ex - cz_a_dot (cz sym_block_ex) \<noteq> 0
    \<and> 2 * mu_c sym_block_ex * ky_2 sym_block_ex \<noteq> 0
    \<and> Symmetric_build_a data_ex = Inr (spec_symmetric_A 6 sym_block_ex)
    \<and> spec_symmetric_A 6 sym_block_ex =
        [[3 / 2, 3 / 2, 3 / 2, 0], [3 / 2, 3 / 2, 3 / 2, 3], [0, 0, 0, 3], [3, 3, - 3 / 2, 9 / 2]]"
  using Symmetric_build_a_table [of data_ex sym_block_ex]
  by (simp add: spec_symmetric_A_def example_defs)

theorem Symmetric_build_a_c_bar_zero_counterexample:
  "symmetric data_c_bar_zero = Some (sym_block_ex\<lparr>c_bar := 0\<rparr>)
    \<and> 2 * mu_c (sym_block_ex\<lparr>c_bar := 0\<rparr>) - cz_a_dot (cz (sym_block_ex\<lparr>c_bar := 0\<rparr>)) = 2
    \<and> 2 * mu_c (sym_block_ex\<lparr>c_bar := 0\<rparr>) * ky_2 (sym_block_ex\<lparr>c_bar := 0\<rparr>) = 2
    \<and> Symmetric_build_a data_c_bar_zero = Inl ZeroDivisionError"
  by (simp add: Symmetric_build_a_def run_defs example_defs)

subsection \<open>Vanishing denominators\<close>

text \<open>
  Claim C3, amended. Neither builder tests a denominator. When a critical denominator is
  zero, that is \<open>2 * mu_c - cz.a_dot\<close> or \<open>2 * mu_c * ky_2\<close> for the symmetric builder and
  \<open>4 * mu_b * (kx_2 * kz_2 - kxz ^ 2)\<close> for the asymmetric one, building the A matrix
  fails with the \<^verbatim>\<open>ZeroDivisionError\<close> of the first division by zero it reaches, and so
  does the constructor of the model.
\<close>

theorem builders_raise_ZeroDivisionError:
  "(symmetric data = Some s
      \<and> (2 * mu_c s - cz_a_dot (cz s) = 0 \<or> 2 * mu_c s * ky_2 s = 0)
      \<longrightarrow> Symmetric_build_a data = Inl ZeroDivisionError
        \<and> Symmetric_init lib data = Inl ZeroDivisionError)
    \<and> (asymmetric data = Some t
      \<and> 4 * mu_b t * (kx_2 t * kz_2 t - kxz t ^ 2) = 0
      \<longrightarrow> Asymmetric_build_a data = Inl ZeroDivisionError
        \<and> Asymmetric_init lib data = Inl ZeroDivisionError)"
proof (intro conjI impI)
  assume sing: "symmetric data = Some s
    \<and> (2 * mu_c s - cz_a_dot (cz s) = 0 \<or> 2 * mu_c s * ky_2 s = 0)"
  then show a: "Symmetric_build_a data = Inl ZeroDivisionError"
    by (auto simp add: Symmetric_build_a_def run_defs)
  then show "Symmetric_init lib data = Inl ZeroDivisionError"
    by (simp add: Symmetric_init_def bind_err_def)
next
  assume sing: "asymmetric data = Some t \<and> 4 * mu_b t * (kx_2 t * kz_2 t - kxz t ^ 2) = 0"
  then show a: "Asymmetric_build_a data = Inl ZeroDivisionError"
    by (auto simp add: Asymmetric_build_a_def run_defs)
  then show "Asymmetric_init lib data = Inl ZeroDivisionError"
    by (simp add: Asymmetric_init_def bind_err_def)
qed

theorem builders_raise_ZeroDivisionError_witness:
  "symmetric data_singular = Some (sym_block_ex\<lparr>cz := (cz sym_block_ex)\<lparr>cz_a_dot := 2\<rparr>\<rparr>)
    \<and> 2 * mu_c sym_block_ex - 2 = 0
    \<and> asymmetric data_singular = Some (asym_block_ex\<lparr>kx_2 := 0\<rparr>)
    \<and> 4 * mu_b asym_block_ex * (0 * kz_2 asym_block_ex - kxz asym_block_ex ^ 2) = 0
    \<and> Symmetric_build_a data_singular = Inl ZeroDivisionError
    \<and> Symmetric_init lib_accept data_singular = Inl ZeroDivisionError
    \<and> Asymmetric_build_a data_singular = Inl ZeroDivisionError
    \<and> Asymmetric_init lib_accept data_singular = Inl ZeroDivisionError"
  using builders_raise_ZeroDivisionError
    [of data_singular "sym_block_ex\<lparr>cz := (cz sym_block_ex)\<lparr>cz_a_dot := 2\<rparr>\<rparr>"
      lib_accept "asym_block_ex\<lparr>kx_2 := 0\<rparr>"]
  by (simp add: example_defs)

text \<open>
  With \<open>cz.a_dot = 2 * mu_c\<close> and a chord of 2, the division of line 83 is evaluated and
  returns 3; the failure is that of the division of line 85.
\<close>

theorem Symmetric_build_a_singular_counterexample:
  "get_symmetric data_singular = Inr (sym_block_ex\<lparr>cz := (cz sym_block_ex)\<lparr>cz_a_dot := 2\<rparr>\<rparr>)
    \<and> 2 * mu_c sym_block_ex - 2 = 0
    \<and> py_truediv (data_v data_singular) (c_bar sym_block_ex) = Inr 3
    \<and> py_truediv (cm_a_dot (cm sym_block_ex)) (2 * mu_c sym_block_ex - 2)
        = Inl ZeroDivisionError
    \<and> Symmetric_build_a data_singular = Inl ZeroDivisionError"
  by (simp add: Symmetric_build_a_def run_defs example_defs)

subsection \<open>The asymmetric B matrix\<close>

text \<open>
  Claim C4, amended. For an asymmetric block with \<open>mu_b_k\<close> and \<open>mu_b\<close> nonzero,
  \<^verbatim>\<open>Asymmetric.build_b\<close> returns the 4 by 2 matrix with rows \<open>[0, y_dr]\<close>, \<open>[0, 0]\<close>,
  \<open>[l_da, l_dr]\<close>, \<open>[n_da, n_dr]\<close>, every nonzero entry scaled by \<open>v / mu_b\<close>:
  \<open>y_dr = (v / mu_b) * cy.dr / (2 * mu_b)\<close>,
  \<open>l_x = (v / mu_b) * (cl.x * kz_2 + cn.x * kxz) / mu_b_k\<close> and
  \<open>n_x = (v / mu_b) * (cl.x * kxz + cn.x * kx_2) / mu_b_k\<close> for \<open>x\<close> among \<open>da\<close>, \<open>dr\<close>.
  In the last row \<open>kxz\<close> multiplies the \<open>cl\<close> derivative and \<open>kx_2\<close> the \<open>cn\<close> derivative.
\<close>

theorem Asymmetric_build_b_table:
  assumes "asymmetric data = Some s"
    and "4 * mu_b s * (kx_2 s * kz_2 s - kxz s ^ 2) \<noteq> 0"
    and "mu_b s \<noteq> 0"
  shows "Asymmetric_build_b data = Inr
    [[0, data_v data / mu_b s * cy_dr (cy s) / (2 * mu_b s)],
     [0, 0],
     [data_v data / mu_b s * (cl_da (cl s) * kz_2 s + cn_da (cn s) * kxz s)
        / (4 * mu_b s * (kx_2 s * kz_2 s - kxz s ^ 2)),
      data_v data / mu_b s * (cl_dr (cl s) * kz_2 s + cn_dr (cn s) * kxz s)
        / (4 * mu_b s * (kx_2 s * kz_2 s - kxz s ^ 2))],
     [data_v data / mu_b s * (cl_da (cl s) * kxz s + cn_da (cn s) * kx_2 s)
        / (4 * mu_b s * (kx_2 s * kz_2 s - kxz s ^ 2)),
      data_v data / mu_b s * (cl_dr (cl s) * kxz s + cn_dr (cn s) * kx_2 s)
        / (4 * mu_b s * (kx_2 s * kz_2 s - kxz s ^ 2))]]"
  using assms
  by (simp add: Asymmetric_build_b_def run_defs)

theorem Asymmetric_build_b_table_witness:
  "asymmetric data_ex = Some asym_block_ex
    \<and> 4 * mu_b asym_block_ex * (kx_2 asym_block_ex * kz_2 asym_block_ex - kxz asym_block_ex ^ 2)
        \<noteq> 0
    \<and> mu_b asym_block_ex \<noteq> 0
    \<and> Asymmetric_build_b data_ex = Inr [[0, 6], [0, 0], [6, 6], [6, 6]]"
  using Asymmetric_build_b_table [of data_ex asym_block_ex]
  by (simp add: example_defs)

theorem Asymmetric_build_b_last_row_counterexample:
  "4 * mu_b asym_block_ex * (kx_2 asym_block_ex * kz_2 asym_block_ex - kxz asym_block_ex ^ 2)
        \<noteq> 0
    \<and> mu_b asym_block_ex \<noteq> 0
    \<and> Asymmetric_build_b data_ex = Inr [[0, 6], [0, 0], [6, 6], [6, 6]]
    \<and> spec_asymmetric_B (data_v data_ex) asym_block_ex = [[0, 6], [0, 0], [6, 6], [3, 3]]"
  by (simp add: Asymmetric_build_b_def spec_asymmetric_B_def run_defs example_defs)

subsection \<open>Shapes and names of the models\<close>

text \<open>
  Claim C5, amended. Whenever the construction of an aircraft succeeds: if the symmetric
  block is present, the symmetric model has an A matrix of 4 rows of 4 entries, a B matrix
  of 4 rows of 1 entry, the state names \<open>[u_hat, alpha, theta, q_cv]\<close> in that order and
  the input names \<open>[de]\<close>; if the asymmetric block is present, the asymmetric model has an
  A matrix of 4 rows of 4 entries, a B matrix of 4 rows of 2 entries, the state names
  \<open>[beta, phi, pb_2v, rb_2v]\<close> in that order and the input names \<open>[da, dr]\<close>.
\<close>

theorem Aircraft_models_shapes_and_names:
  assumes "Aircraft_init lib load_aircraft fname = Inr ac"
  shows "(symmetric (ac_data ac) \<noteq> None \<longrightarrow>
      (\<exists>m. sym ac = Some m
        \<and> length (ss_a m) = 4 \<and> (\<forall>row \<in> set (ss_a m). length row = 4)
        \<and> length (ss_b m) = 4 \<and> (\<forall>row \<in> set (ss_b m). length row = 1)
        \<and> x_names m = [''u_hat'', ''alpha'', ''theta'', ''q_cv'']
        \<and> u_names m = [''de'']))
    \<and> (asymmetric (ac_data ac) \<noteq> None \<longrightarrow>
      (\<exists>m. asym ac = Some m
        \<and> length (ss_a m) = 4 \<and> (\<forall>row \<in> set (ss_a m). length row = 4)
        \<and> length (ss_b m) = 4 \<and> (\<forall>row \<in> set (ss_b m). length row = 2)
        \<and> x_names m = [''beta'', ''phi'', ''pb_2v'', ''rb_2v'']
        \<and> u_names m = [''da'', ''dr'']))"
proof (intro conjI impI)
  assume "symmetric (ac_data ac) \<noteq> None"
  with Aircraft_init_Inr [OF assms] obtain m
    where "sym ac = Some m" and "Symmetric_init lib (ac_data ac) = Inr m"
    by auto
  with Symmetric_init_Inr [of lib "ac_data ac" m]
  show "\<exists>m. sym ac = Some m
        \<and> length (ss_a m) = 4 \<and> (\<forall>row \<in> set (ss_a m). length row = 4)
        \<and> length (ss_b m) = 4 \<and> (\<forall>row \<in> set (ss_b m). length row = 1)
        \<and> x_names m = [''u_hat'', ''alpha'', ''theta'', ''q_cv'']
        \<and> u_names m = [''de'']"
    by simp
next
  assume "asymmetric (ac_data ac) \<noteq> None"
  with Aircraft_init_Inr [OF assms] obtain m
    where "asym ac = Some m" and "Asymmetric_init lib (ac_data ac) = Inr m"
    by auto
  with Asymmetric_init_Inr [of lib "ac_data ac" m]
  show "\<exists>m. asym ac = Some m
        \<and> length (ss_a m) = 4 \<and> (\<forall>row \<in> set (ss_a m). length row = 4)
        \<and> length (ss_b m) = 4 \<and> (\<forall>row \<in> set (ss_b m). length row = 2)
        \<and> x_names m = [''beta'', ''phi'', ''pb_2v'', ''rb_2v'']
        \<and> u_names m = [''da'', ''dr'']"
    by simp
qed

theorem Aircraft_models_shapes_and_names_witness:
  "Aircraft_init lib_accept (\<lambda>fname. Inr data_ex) ''citation.yaml'' =
      Inr \<lparr>ac_filename = ''citation.yaml'', ac_data = data_ex,
           sym = Some sym_model_ex, asym = Some asym_model_ex\<rparr>
    \<and> symmetric data_ex \<noteq> None \<and> asymmetric data_ex \<noteq> None
    \<and> length (ss_a sym_model_ex) = 4 \<and> length (ss_b sym_model_ex) = 4
    \<and> x_names sym_model_ex = [''u_hat'', ''alpha'', ''theta'', ''q_cv'']
    \<and> u_names sym_model_ex = [''de'']
    \<and> length (ss_a asym_model_ex) = 4 \<and> length (ss_b asym_model_ex) = 4
    \<and> x_names asym_model_ex = [''beta'', ''phi'', ''pb_2v'', ''rb_2v'']
    \<and> u_names asym_model_ex = [''da'', ''dr'']"
  using Aircraft_models_shapes_and_names [OF Aircraft_init_data_ex]
  by (simp add: Aircraft_init_data_ex blocks_data_ex)

theorem state_names_counterexample:
  "Symmetric_init lib_accept data_ex = Inr sym_model_ex
    \<and> x_names sym_model_ex = [''u_hat'', ''alpha'', ''theta'', ''q_cv'']
    \<and> x_names sym_model_ex \<noteq> [''u_hat'', ''alpha'', ''theta'', ''q'']
    \<and> Asymmetric_init lib_accept data_ex = Inr asym_model_ex
    \<and> x_names asym_model_ex = [''beta'', ''phi'', ''pb_2v'', ''rb_2v'']
    \<and> x_names asym_model_ex \<noteq> [''beta'', ''phi'', ''p'', ''r'']"
  by (simp add: Symmetric_init_data_ex Asymmetric_init_data_ex)
    (simp add: sym_model_ex_def asym_model_ex_def)

subsection \<open>An aircraft without blocks\<close>

text \<open>
  Claim C6, amended. Constructing an aircraft from data in which neither the symmetric nor
  the asymmetric block is present does not fail: it returns an aircraft whose symmetric
  and asymmetric models are both absent (\<^verbatim>\<open>None\<close>).
\<close>

theorem Aircraft_init_without_blocks:
  assumes "load_aircraft fname = Inr data"
    and "symmetric data = None"
    and "asymmetric data = None"
  shows "Aircraft_init lib load_aircraft fname =
    Inr \<lparr>ac_filename = fname, ac_data = data, sym = None, asym = None\<rparr>"
  using assms by (simp add: Aircraft_init_def bind_err_def)

theorem Aircraft_init_without_blocks_witness:
  "symmetric data_none = None \<and> asymmetric data_none = None
    \<and> Aircraft_init lib_accept (\<lambda>fname. Inr data_none) ''citation.yaml'' =
        Inr \<lparr>ac_filename = ''citation.yaml'', ac_data = data_none, sym = None, asym = None\<rparr>"
  using Aircraft_init_without_blocks [of "\<lambda>fname. Inr data_none" "''citation.yaml''" data_none
      lib_accept]
  by (simp add: data_none_def)

theorem Aircraft_init_without_blocks_counterexample:
  "Aircraft_init lib_accept (\<lambda>fname. Inr \<lparr>data_v = 6, symmetric = None, asymmetric = None\<rparr>)
      ''empty.yaml'' =
    Inr \<lparr>ac_filename = ''empty.yaml'',
         ac_data = \<lparr>data_v = 6, symmetric = None, asymmetric = None\<rparr>,
         sym = None, asym = None\<rparr>"
  by (simp add: Aircraft_init_def bind_err_def)

subsection \<open>Construction of a state-space model\<close>

text \<open>
  Claim C7, amended. \<^verbatim>\<open>StateSpace.__init__\<close> checks neither the shapes of A and B
  against the name lists nor the name lists for duplicates. It returns an instance whenever
  B has a row and the four calls into the external package return, and then its C matrix
  is the identity of size n and its D matrix the n by m zero matrix, n being the number of
  rows of A and m the number of columns of B. It fails only with \<^verbatim>\<open>IndexError\<close>, when B
  has no second axis, or with the error one of the four external calls raises.
\<close>

theorem StateSpace_init_no_validation:
  "(StateSpace_init lib a b xs us = Inr m \<longrightarrow>
      ss_a m = a \<and> ss_b m = b \<and> x_names m = xs \<and> u_names m = us
      \<and> ss_c m = np_eye (length a)
      \<and> (\<exists>k. shape_1 b = Inr k \<and> ss_d m = np_zeros (length a) k))
    \<and> (shape_1 b = Inr k
        \<and> ct_StateSpace_init lib a b (np_eye (length a)) (np_zeros (length a) k) = Inr ()
        \<and> ct_set_inputs lib us = Inr () \<and> ct_set_outputs lib xs = Inr ()
        \<and> ct_set_states lib xs = Inr ()
      \<longrightarrow> StateSpace_init lib a b xs us =
          Inr \<lparr>ss_a = a, ss_b = b, ss_c = np_eye (length a), ss_d = np_zeros (length a) k,
               x_names = xs, u_names = us\<rparr>)
    \<and> (StateSpace_init lib a b xs us = Inl e \<longrightarrow>
        (b = [] \<and> e = IndexError)
        \<or> (\<exists>k. shape_1 b = Inr k
            \<and> (ct_StateSpace_init lib a b (np_eye (length a)) (np_zeros (length a) k) = Inl e
               \<or> ct_set_inputs lib us = Inl e \<or> ct_set_outputs lib xs = Inl e
               \<or> ct_set_states lib xs = Inl e)))"
proof -
  have built: "StateSpace_init lib a b xs us = Inr m \<longrightarrow>
      ss_a m = a \<and> ss_b m = b \<and> x_names m = xs \<and> u_names m = us
      \<and> ss_c m = np_eye (length a)
      \<and> (\<exists>k. shape_1 b = Inr k \<and> ss_d m = np_zeros (length a) k)"
    using StateSpace_init_Inr [of lib a b xs us m] by simp
  have accepted: "shape_1 b = Inr k
        \<and> ct_StateSpace_init lib a b (np_eye (length a)) (np_zeros (length a) k) = Inr ()
        \<and> ct_set_inputs lib us = Inr () \<and> ct_set_outputs lib xs = Inr ()
        \<and> ct_set_states lib xs = Inr ()
      \<longrightarrow> StateSpace_init lib a b xs us =
          Inr \<lparr>ss_a = a, ss_b = b, ss_c = np_eye (length a), ss_d = np_zeros (length a) k,
               x_names = xs, u_names = us\<rparr>"
    by (simp add: StateSpace_init_def bind_err_def shape_0_def)
  have failed: "StateSpace_init lib a b xs us = Inl e \<longrightarrow>
        (b = [] \<and> e = IndexError)
        \<or> (\<exists>k. shape_1 b = Inr k
            \<and> (ct_StateSpace_init lib a b (np_eye (length a)) (np_zeros (length a) k) = Inl e
               \<or> ct_set_inputs lib us = Inl e \<or> ct_set_outputs lib xs = Inl e
               \<or> ct_set_states lib xs = Inl e))"
    by (cases b)
      (auto simp add: StateSpace_init_def bind_err_def shape_0_def shape_1_def Let_def
        split: sum.splits)
  from built accepted failed show ?thesis
    by (intro conjI)
qed

theorem StateSpace_init_no_validation_witness:
  "shape_1 [[0], [1]] = Inr 1
    \<and> ct_StateSpace_init lib_accept [[0, 1], [0, 0]] [[0], [1]] (np_eye 2) (np_zeros 2 1) = Inr ()
    \<and> ct_set_inputs lib_accept [''u''] = Inr ()
    \<and> ct_set_outputs lib_accept [''x1'', ''x2''] = Inr ()
    \<and> ct_set_states lib_accept [''x1'', ''x2''] = Inr ()
    \<and> StateSpace_init lib_accept [[0, 1], [0, 0]] [[0], [1]] [''x1'', ''x2''] [''u''] =
        Inr \<lparr>ss_a = [[0, 1], [0, 0]], ss_b = [[0], [1]],
             ss_c = [[1, 0], [0, 1]], ss_d = [[0], [0]],
             x_names = [''x1'', ''x2''], u_names = [''u'']\<rparr>"
  using StateSpace_init_no_validation
    [of lib_accept "[[0, 1], [0, 0]]" "[[0], [1]]" "[''x1'', ''x2'']" "[''u'']" _ 1]
  by (simp add: lib_accept_def shape_1_def np_eye_def np_zeros_def)

text \<open>
  A 2 by 2 matrix A and a 2 by 1 matrix B with the state names \<open>[x, x]\<close>; and a 1 by 2
  matrix A with a 1 by 1 matrix B, one state name and no input name.
\<close>

theorem StateSpace_init_unchecked_counterexample:
  "StateSpace_init lib_accept [[0, 1], [0, 0]] [[0], [1]] [''x'', ''x''] [''u''] =
      Inr \<lparr>ss_a = [[0, 1], [0, 0]], ss_b = [[0], [1]],
           ss_c = [[1, 0], [0, 1]], ss_d = [[0], [0]],
           x_names = [''x'', ''x''], u_names = [''u'']\<rparr>
    \<and> \<not> distinct [''x'', ''x'']
    \<and> StateSpace_init lib_accept [[1, 2]] [[0]] [''x''] [] =
      Inr \<lparr>ss_a = [[1, 2]], ss_b = [[0]], ss_c = [[1]], ss_d = [[0]],
           x_names = [''x''], u_names = []\<rparr>"
  by (simp add: StateSpace_init_def bind_err_def shape_0_def shape_1_def lib_accept_def
      np_eye_def np_zeros_def)

subsection \<open>Rewards\<close>

text \<open>
  Claim C8, at the window with reward scale 2, last squared tracking error 1 and last two
  action vectors \<open>[0, 0]\<close> and \<open>[1, 3]\<close>, whose squared differences sum to 10:
  \<^verbatim>\<open>sq_error\<close> returns \<open>- 2 * 1 = - 2\<close>, and \<^verbatim>\<open>sq_error_da\<close> returns
  \<open>- (1 + 10) = - 11\<close>, the reward scale not entering.
\<close>

theorem Rewards_sq_error_da_unscaled:
  "reward_scale env_scale_two = 2
    \<and> py_last (sq_error env_scale_two) = Inr 1
    \<and> py_last_two (actions env_scale_two) = [[0, 0], [1, 3]]
    \<and> np_sum_sq (np_diff_axis0 (py_last_two (actions env_scale_two))) = 10
    \<and> get_reward ''sq_error'' = Inr Rewards_sq_error
    \<and> Rewards_sq_error env_scale_two = Inr (- 2)
    \<and> get_reward ''sq_error_da'' = Inr Rewards_sq_error_da
    \<and> Rewards_sq_error_da env_scale_two = Inr (- 11)"
  by (simp add: get_reward_def Rewards_sq_error_def Rewards_sq_error_da_def env_scale_two_def
      bind_err_def py_last_def py_last_two_def np_sum_sq_def)

text \<open>
  Claim C9. For every reward tag other than \<open>sq_error\<close> and \<open>sq_error_da\<close>,
  \<^verbatim>\<open>get_reward\<close> raises: it returns no reward function, so no window is scored. The
  exception is the \<^verbatim>\<open>ValueError\<close> of line 13, the failure the specification names
  UnknownRewardKind.
\<close>

theorem get_reward_unknown:
  assumes "reward_type \<noteq> ''sq_error''" and "reward_type \<noteq> ''sq_error_da''"
  shows "get_reward reward_type =
      Inl (ValueError (''Reward type '' @ reward_type @ '' not found''))
    \<and> (\<forall>f. get_reward reward_type \<noteq> Inr f)"
  using assms by (simp add: get_reward_def)

theorem get_reward_unknown_witness:
  "''unknown_kind'' \<noteq> ''sq_error'' \<and> ''unknown_kind'' \<noteq> ''sq_error_da''
    \<and> get_reward ''unknown_kind'' = Inl (ValueError ''Reward type unknown_kind not found'')"
  using get_reward_unknown [of "''unknown_kind''"] by simp

text \<open>
  Claim C10, amended. For a window whose last squared tracking error \<open>e\<close> is nonnegative
  and a nonnegative reward scale, both reward functions return a value that is at most
  zero. \<^verbatim>\<open>sq_error\<close> returns zero exactly when the reward scale is zero or \<open>e\<close> is
  zero. \<^verbatim>\<open>sq_error_da\<close> returns zero only when \<open>e\<close> is zero, and, when the window holds
  two last action vectors of one length, exactly when \<open>e\<close> is zero and the two vectors are
  equal.
\<close>

theorem rewards_are_penalties:
  assumes "py_last (sq_error w) = Inr e" and "0 \<le> e" and "0 \<le> reward_scale w"
  shows "\<exists>r r'. Rewards_sq_error w = Inr r \<and> Rewards_sq_error_da w = Inr r'
    \<and> r \<le> 0 \<and> r' \<le> 0
    \<and> (r = 0 \<longleftrightarrow> reward_scale w = 0 \<or> e = 0)
    \<and> (r' = 0 \<longrightarrow> e = 0)
    \<and> (py_last_two (actions w) = [a1, a2] \<and> length a1 = length a2
        \<longrightarrow> (r' = 0 \<longleftrightarrow> e = 0 \<and> a1 = a2))"
proof -
  let ?d = "np_sum_sq (np_diff_axis0 (py_last_two (actions w)))"
  have d: "0 \<le> ?d" by (rule np_sum_sq_nonneg)
  have r: "Rewards_sq_error w = Inr (- reward_scale w * e)"
    using assms(1) by (simp add: Rewards_sq_error_def bind_err_def)
  have r': "Rewards_sq_error_da w = Inr (- (e + ?d))"
    using assms(1) by (simp add: Rewards_sq_error_da_def bind_err_def)
  have "- reward_scale w * e \<le> 0"
    using assms(2,3) by simp
  moreover have "- (e + ?d) \<le> 0"
    using assms(2) d by simp
  moreover have "- reward_scale w * e = 0 \<longleftrightarrow> reward_scale w = 0 \<or> e = 0"
    by simp
  moreover have z: "- (e + ?d) = 0 \<longleftrightarrow> e = 0 \<and> ?d = 0"
    using assms(2) d by (auto simp add: add_nonneg_eq_0_iff)
  moreover have "py_last_two (actions w) = [a1, a2] \<and> length a1 = length a2
      \<longrightarrow> (- (e + ?d) = 0 \<longleftrightarrow> e = 0 \<and> a1 = a2)"
  proof
    assume two: "py_last_two (actions w) = [a1, a2] \<and> length a1 = length a2"
    then have "?d = 0 \<longleftrightarrow> a1 = a2"
      using np_sum_sq_diff_two [of a1 a2] by (simp del: np_diff_axis0.simps)
    with z show "- (e + ?d) = 0 \<longleftrightarrow> e = 0 \<and> a1 = a2"
      by simp
  qed
  ultimately show ?thesis
    using r r' by auto
qed

theorem rewards_are_penalties_witness:
  "py_last (sq_error env_at_rest) = Inr 0 \<and> (0::real) \<le> 0 \<and> 0 \<le> reward_scale env_at_rest
    \<and> py_last_two (actions env_at_rest) = [[1, 3], [1, 3]]
    \<and> Rewards_sq_error env_at_rest = Inr 0
    \<and> Rewards_sq_error_da env_at_rest = Inr 0"
  using rewards_are_penalties [of env_at_rest 0 "[1, 3]" "[1, 3]"]
  by (simp add: Rewards_sq_error_def Rewards_sq_error_da_def env_at_rest_def
      bind_err_def py_last_def py_last_two_def np_sum_sq_def)

theorem Rewards_sq_error_zero_scale_counterexample:
  "0 \<le> reward_scale env_scale_zero
    \<and> py_last (sq_error env_scale_zero) = Inr 1
    \<and> get_reward ''sq_error'' = Inr Rewards_sq_error
    \<and> Rewards_sq_error env_scale_zero = Inr 0"
  by (simp add: get_reward_def Rewards_sq_error_def env_scale_zero_def bind_err_def py_last_def)

end
